theory Spec2Isabelle
  imports Main "HOL-Library.Sublist"
begin

section \<open>The instrumented recipe pipeline of \<^verbatim>\<open>examples/langchain-simple\<close>\<close>

text \<open>
  A shallow embedding of \<^verbatim>\<open>run_example.py\<close> and \<^verbatim>\<open>config.py\<close>. Python exceptions are
  values of the type \<open>exn\<close>, and a function that may raise returns \<open>exn + 'a\<close> with the
  exception on the left. Dictionaries are maps or association lists; the behaviour of the
  libraries the script calls (the model chain, the telemetry client, the clock, the file
  system) is a parameter, collected in the record \<open>world\<close>.
\<close>

subsection \<open>Exceptions\<close>

datatype exn =
  KeyError string
  | TypeError string
  | AttributeError string
  | IndexError string
  | LibraryError string

text \<open>
  Python's \<^verbatim>\<open>str(e)\<close>: a \<^verbatim>\<open>KeyError\<close> prints the quoted key, the others their message.
  The messages of the interpreter are written here without their quotation marks.
  \<open>LibraryError\<close> stands for any exception raised inside a library call (the model
  endpoint, the output parser, the telemetry client, the file system).
\<close>

fun str :: "exn \<Rightarrow> string" where
  "str (KeyError k) = [CHR 0x27] @ k @ [CHR 0x27]"
| "str (TypeError m) = m"
| "str (AttributeError m) = m"
| "str (IndexError m) = m"
| "str (LibraryError m) = m"

subsection \<open>Configuration (\<^verbatim>\<open>config.py\<close>)\<close>

record OllamaConfig =
  model_name :: string
  base_url :: string

record RecipeConfig =
  default_ingredients :: "string list"
  max_recipes :: int

record AppConfig =
  ollama :: OllamaConfig
  recipes_config :: RecipeConfig

text \<open>
  The dataclass defaults after \<^verbatim>\<open>__post_init__\<close>. The floating-point sampling parameters
  (\<^verbatim>\<open>temperature\<close>, \<^verbatim>\<open>top_p\<close>) and \<^verbatim>\<open>max_tokens\<close> are only handed to the model library
  and are left out.
\<close>

definition default_config :: AppConfig where
  "default_config =
     \<lparr> ollama = \<lparr> model_name = ''qwen3:8b'', base_url = ''http://localhost:11434'' \<rparr>,
       recipes_config =
         \<lparr> default_ingredients =
             [''chicken'', ''tomatoes'', ''onions'', ''garlic'', ''rice'', ''olive oil'',
              ''salt'', ''pepper''],
           max_recipes = 3 \<rparr> \<rparr>"

subsection \<open>The lifecycle instrumentor (\<^verbatim>\<open>MetadataExtractor\<close>)\<close>

text \<open>
  A generation record carries its text and an optional \<^verbatim>\<open>generation_info\<close> dictionary, of
  which the code reads the integer counters only. A response holds one list of candidate
  records per prompt.
\<close>

record generation =
  gen_text :: string
  generation_info :: "(string \<times> int) list option"

record llm_result =
  generations :: "generation list list"

text \<open>
  The values of the \<^verbatim>\<open>metadata\<close> dictionary. Clock readings are Python floats; their type
  is the parameter \<open>'t\<close>, of which only the subtraction is used, so nothing is assumed about
  floating-point arithmetic.
\<close>

datatype 't mvalue =
  PyFloat 't
  | PyStr string
  | PyDict "(string \<times> int) list"
  | Prompts "string list"
  | Serialized "(string \<times> string) list"

record 't MetadataExtractor =
  metadata :: "string \<rightharpoonup> 't mvalue"
  model :: string

text \<open>The constructor, applied to the configuration it reads the model name from.\<close>

definition MetadataExtractor_init :: "AppConfig \<Rightarrow> 't MetadataExtractor" where
  "MetadataExtractor_init config =
     \<lparr> metadata = Map.empty, model = model_name (ollama config) \<rparr>"

definition on_llm_start ::
  "'t MetadataExtractor \<Rightarrow> (string \<times> string) list \<Rightarrow> string list \<Rightarrow> 't \<Rightarrow> 't MetadataExtractor"
where
  "on_llm_start self serialized prompts now =
     self\<lparr> metadata := (metadata self)
       (''start_time'' \<mapsto> PyFloat now,
        ''model_info'' \<mapsto> Serialized serialized,
        ''input_prompts'' \<mapsto> Prompts prompts) \<rparr>"

text \<open>Python's truth value of \<^verbatim>\<open>generation_info\<close>: \<^verbatim>\<open>None\<close> and the empty dictionary are false.\<close>

fun truthy :: "(string \<times> int) list option \<Rightarrow> bool" where
  "truthy None = False"
| "truthy (Some d) = (d \<noteq> [])"

text \<open>
  The inner loop \<^verbatim>\<open>for gen_inner in gen\<close>. The first argument is the whole list \<^verbatim>\<open>gen\<close>,
  which the body indexes as \<^verbatim>\<open>gen[0]\<close>; the second is what is left to iterate. Subscripting
  \<^verbatim>\<open>None\<close> raises \<^verbatim>\<open>TypeError\<close>, a missing key raises \<^verbatim>\<open>KeyError\<close>.
\<close>

fun inner_loop :: "generation list \<Rightarrow> generation list \<Rightarrow> int \<times> int \<Rightarrow> exn + int \<times> int" where
  "inner_loop gen [] acc = Inr acc"
| "inner_loop gen (gen_inner # rest) (total_input, total_output) =
     (if truthy (generation_info gen_inner) then
        (case gen of
           [] \<Rightarrow> Inl (IndexError ''list index out of range'')
         | g0 # _ \<Rightarrow>
             (case generation_info g0 of
                None \<Rightarrow> Inl (TypeError ''NoneType object is not subscriptable'')
              | Some info \<Rightarrow>
                  (case map_of info ''prompt_eval_count'' of
                     None \<Rightarrow> Inl (KeyError ''prompt_eval_count'')
                   | Some a \<Rightarrow>
                       (case map_of info ''eval_count'' of
                          None \<Rightarrow> Inl (KeyError ''eval_count'')
                        | Some b \<Rightarrow> inner_loop gen rest (total_input + a, total_output + b)))))
      else inner_loop gen rest (total_input, total_output))"

text \<open>The outer loop \<^verbatim>\<open>for gen in response.generations\<close>.\<close>

fun outer_loop :: "generation list list \<Rightarrow> int \<times> int \<Rightarrow> exn + int \<times> int" where
  "outer_loop [] acc = Inr acc"
| "outer_loop (gen # gens) acc =
     (case inner_loop gen gen acc of
        Inl e \<Rightarrow> Inl e
      | Inr acc' \<Rightarrow> outer_loop gens acc')"

text \<open>
  \<^verbatim>\<open>on_llm_end\<close>: the two loops, then the four dictionary writes. The subtraction reads
  \<^verbatim>\<open>metadata['start_time']\<close>, which raises \<^verbatim>\<open>KeyError\<close> when \<^verbatim>\<open>on_llm_start\<close> never ran
  and \<^verbatim>\<open>TypeError\<close> when the entry is no number. A call that raises returns the exception;
  the dictionary it had half updated is not read again.
\<close>

definition on_llm_end ::
  "'t::minus MetadataExtractor \<Rightarrow> llm_result \<Rightarrow> 't \<Rightarrow> exn + 't MetadataExtractor"
where
  "on_llm_end self response now =
     (case outer_loop (generations response) (0, 0) of
        Inl e \<Rightarrow> Inl e
      | Inr (total_input, total_output) \<Rightarrow>
          (let usage =
                 [(''input_tokens'', total_input),
                  (''output_tokens'', total_output),
                  (''total_tokens'', total_input + total_output)];
               md1 = (metadata self)(''model'' \<mapsto> PyStr (model self));
               md2 = md1(''end_time'' \<mapsto> PyFloat now)
           in case md2 ''start_time'' of
                None \<Rightarrow> Inl (KeyError ''start_time'')
              | Some (PyFloat start) \<Rightarrow>
                  Inr (self\<lparr> metadata :=
                         md2(''duration'' \<mapsto> PyFloat (now - start),
                             ''usage'' \<mapsto> PyDict usage) \<rparr>)
              | Some _ \<Rightarrow> Inl (TypeError ''unsupported operand type(s) for -'')))"

definition on_llm_error :: "'t MetadataExtractor \<Rightarrow> exn \<Rightarrow> 't MetadataExtractor" where
  "on_llm_error self error = self\<lparr> metadata := (metadata self)(''error'' \<mapsto> PyStr (str error)) \<rparr>"

text \<open>
  What the specification says \<^verbatim>\<open>onEnd\<close> accumulates: over all generation records of the
  response, the sum of each record's own counters, a record without usage counters
  contributing nothing. This definition follows the specification's words, not the code.
\<close>

definition own_counter :: "string \<Rightarrow> generation \<Rightarrow> int" where
  "own_counter key g =
     (case generation_info g of
        None \<Rightarrow> 0
      | Some info \<Rightarrow> (case map_of info key of None \<Rightarrow> 0 | Some n \<Rightarrow> n))"

definition spec_input_token_count :: "llm_result \<Rightarrow> int" where
  "spec_input_token_count response =
     sum_list (map (own_counter ''prompt_eval_count'') (concat (generations response)))"

definition spec_output_token_count :: "llm_result \<Rightarrow> int" where
  "spec_output_token_count response =
     sum_list (map (own_counter ''eval_count'') (concat (generations response)))"

text \<open>A generation record with the two usage counters, and one without any.\<close>

definition with_usage :: "int \<Rightarrow> int \<Rightarrow> generation" where
  "with_usage a b =
     \<lparr> gen_text = '''', generation_info = Some [(''prompt_eval_count'', a), (''eval_count'', b)] \<rparr>"

definition without_usage :: generation where
  "without_usage = \<lparr> gen_text = '''', generation_info = None \<rparr>"

text \<open>
  A record the code can count by its own counters: it has no usage information, or it has
  both counters. A list of candidates that holds exactly one such record.
\<close>

definition counted :: "generation \<Rightarrow> bool" where
  "counted g =
     (case generation_info g of
        None \<Rightarrow> True
      | Some info \<Rightarrow>
          info = [] \<or>
          (map_of info ''prompt_eval_count'' \<noteq> None \<and> map_of info ''eval_count'' \<noteq> None))"

fun single_candidate :: "generation list \<Rightarrow> bool" where
  "single_candidate [g] = counted g"
| "single_candidate _ = False"

subsection \<open>The output schema (\<^verbatim>\<open>Recipe\<close>, \<^verbatim>\<open>RecipeCollection\<close>)\<close>

record Recipe =
  name :: string
  ingredients :: "string list"
  instructions :: "string list"
  prep_time_minutes :: int
  cook_time_minutes :: int
  servings :: int

record RecipeCollection =
  recipes :: "Recipe list"

subsection \<open>The telemetry client and the world around the script\<close>

text \<open>
  The four operations of \<^verbatim>\<open>CoagentClient\<close> the script calls, with their arguments in the
  order \<^verbatim>\<open>session_id\<close>, text, \<^verbatim>\<open>prompt_number\<close>, \<^verbatim>\<open>turn_number\<close>, then the rest. The last
  argument of \<^verbatim>\<open>log_session_end\<close> is the dictionary stored under \<^verbatim>\<open>"context"\<close> of \<^verbatim>\<open>meta\<close>,
  or \<open>None\<close> when \<^verbatim>\<open>meta\<close> is not passed.
\<close>

datatype 't client_call =
  log_session_start string string int int
  | log_llm_call_new string string int int string string
  | log_llm_response string string int int "int option" "int option" "int option"
  | log_session_end string string int int int "(string \<rightharpoonup> 't mvalue) option"

text \<open>
  What a run does to the outside, in order: the invocation of the chain (the model call
  and the parsing of its reply) with the two template variables, a call of the telemetry
  client, the writing of a file with its name, content and indentation.
\<close>

datatype 't action =
  Invoke string string
  | Client "'t client_call"
  | WriteFile string RecipeCollection nat

text \<open>
  The library behaviour the script depends on. \<open>chain_invoke\<close> is the outcome of
  \<^verbatim>\<open>chain.invoke\<close> on the two template variables: the parsed collection, or the exception of
  the model call or of the parser. \<open>callbacks\<close> is what that invocation does, through the
  registered handlers, to the extractor object the caller holds (the identity when the
  object is not registered). \<open>client\<close> tells for each telemetry call whether it raises.
  \<open>open_file\<close> tells whether opening the output file raises. \<open>uuid4_hex\<close> and
  \<open>elapsed_time\<close> are the random identifier and the measured milliseconds of the run.
\<close>

record 't world =
  chain_invoke :: "string \<Rightarrow> string \<Rightarrow> exn + RecipeCollection"
  callbacks :: "'t MetadataExtractor \<Rightarrow> 't MetadataExtractor"
  client :: "'t client_call \<Rightarrow> exn option"
  get_format_instructions :: string
  model_dump_json :: "RecipeCollection \<Rightarrow> string"
  open_file :: "string \<Rightarrow> exn option"
  uuid4_hex :: string
  elapsed_time :: int

subsection \<open>Prompt composition\<close>

text \<open>Python's \<^verbatim>\<open>sep.join(items)\<close>.\<close>

fun join :: "string \<Rightarrow> string list \<Rightarrow> string" where
  "join sep [] = []"
| "join sep [x] = x"
| "join sep (x # y # ys) = x @ sep @ join sep (y # ys)"

text \<open>The three literal pieces of the f-string \<^verbatim>\<open>full_prompt\<close>, with the source's indentation.\<close>

definition prompt_head :: string where
  "prompt_head = ''Create three recipes using these ingredients: ''"

definition prompt_sep :: string where
  "prompt_sep = ''\<newline>\<newline>        ''"

definition prompt_tail :: string where
  "prompt_tail =
     ''\<newline>\<newline>        Make sure each recipe:'' @
     ''\<newline>        - Uses the provided ingredients prominently'' @
     ''\<newline>        - Has realistic preparation and cooking times'' @
     ''\<newline>        - Includes clear step-by-step instructions'' @
     ''\<newline>        - Specifies exact quantities for ingredients'' @
     ''\<newline>        ''"

definition full_prompt :: "string \<Rightarrow> string \<Rightarrow> string" where
  "full_prompt ingredients_str format_instructions =
     prompt_head @ ingredients_str @ prompt_sep @ format_instructions @ prompt_tail"

subsection \<open>\<^verbatim>\<open>StructuredRecipeGenerator.generate_structured_recipes\<close>\<close>

text \<open>
  \<^verbatim>\<open>metadata_extractor.metadata.get('usage', {}).get(key)\<close>. Dereferencing \<^verbatim>\<open>None\<close> raises
  \<^verbatim>\<open>AttributeError\<close>; a missing \<^verbatim>\<open>'usage'\<close> entry gives the empty dictionary, whose \<^verbatim>\<open>get\<close>
  returns \<^verbatim>\<open>None\<close>. Only \<^verbatim>\<open>on_llm_end\<close> writes that entry, always as a dictionary; an entry
  of another kind has no usable \<^verbatim>\<open>get\<close>.
\<close>

definition usage_get :: "'t MetadataExtractor option \<Rightarrow> string \<Rightarrow> exn + int option" where
  "usage_get metadata_extractor key =
     (case metadata_extractor of
        None \<Rightarrow> Inl (AttributeError ''NoneType object has no attribute metadata'')
      | Some ex \<Rightarrow>
          (case metadata ex ''usage'' of
             None \<Rightarrow> Inr None
           | Some (PyDict d) \<Rightarrow> Inr (map_of d key)
           | Some _ \<Rightarrow> Inl (AttributeError ''object has no attribute get'')))"

record 't outcome =
  result :: "exn + RecipeCollection"
  trace :: "'t action list"
  console :: "string list"
  extractor :: "'t MetadataExtractor option"

definition llm_warning :: "exn \<Rightarrow> string" where
  "llm_warning e = ''Warning: Failed to log LLM call: '' @ str e"

text \<open>
  The method: join the items, invoke the chain, then the logging block under its single
  \<^verbatim>\<open>try\<close>. An exception of \<^verbatim>\<open>chain.invoke\<close> leaves the method at once. In the logging
  block the first call that raises, or the evaluation of the arguments of the second call
  when it raises, ends the block with a warning; the method returns \<^verbatim>\<open>result\<close> either way.
  The arguments of \<^verbatim>\<open>log_llm_response\<close> are evaluated left to right before the call.
\<close>

definition generate_structured_recipes ::
  "'t world \<Rightarrow> string \<Rightarrow> string list \<Rightarrow> 't MetadataExtractor option \<Rightarrow> 't outcome"
where
  "generate_structured_recipes w run_id ingredients_list metadata_extractor =
     (let ingredients_str = join '', '' ingredients_list;
          instructions_text = get_format_instructions w;
          prompt = full_prompt ingredients_str instructions_text;
          invoked = [Invoke ingredients_str instructions_text];
          observed = map_option (callbacks w) metadata_extractor
      in case chain_invoke w ingredients_str instructions_text of
           Inl e \<Rightarrow>
             \<lparr> result = Inl e, trace = invoked, console = [], extractor = observed \<rparr>
         | Inr res \<Rightarrow>
             (let call_new =
                    log_llm_call_new run_id prompt 1 1 ''langchain''
                      ''You are a professional chef and cooking assistant.''
              in case client w call_new of
                   Some e \<Rightarrow>
                     \<lparr> result = Inr res, trace = invoked @ [Client call_new],
                       console = [llm_warning e], extractor = observed \<rparr>
                 | None \<Rightarrow>
                     (case usage_get observed ''input_tokens'' of
                        Inl e \<Rightarrow>
                          \<lparr> result = Inr res, trace = invoked @ [Client call_new],
                            console = [llm_warning e], extractor = observed \<rparr>
                      | Inr input_tokens \<Rightarrow>
                     (case usage_get observed ''output_tokens'' of
                        Inl e \<Rightarrow>
                          \<lparr> result = Inr res, trace = invoked @ [Client call_new],
                            console = [llm_warning e], extractor = observed \<rparr>
                      | Inr output_tokens \<Rightarrow>
                     (case usage_get observed ''total_tokens'' of
                        Inl e \<Rightarrow>
                          \<lparr> result = Inr res, trace = invoked @ [Client call_new],
                            console = [llm_warning e], extractor = observed \<rparr>
                      | Inr total_tokens \<Rightarrow>
                          (let call_response =
                                 log_llm_response run_id (model_dump_json w res) 1 1
                                   input_tokens output_tokens total_tokens
                           in \<lparr> result = Inr res,
                                trace = invoked @ [Client call_new, Client call_response],
                                console =
                                  (case client w call_response of
                                     None \<Rightarrow> []
                                   | Some e \<Rightarrow> [llm_warning e]),
                                extractor = observed \<rparr>))))))"

subsection \<open>\<^verbatim>\<open>main\<close>\<close>

text \<open>Python's \<^verbatim>\<open>str(n)\<close> for a length.\<close>

function str_nat :: "nat \<Rightarrow> string" where
  "str_nat n =
     (if n < 10 then [char_of (48 + n)]
      else str_nat (n div 10) @ [char_of (48 + n mod 10)])"
  by pat_completeness auto
termination
  by (relation "measure id") auto

definition run_id_of :: "'t world \<Rightarrow> string" where
  "run_id_of w = ''recipe-gen-'' @ take 8 (uuid4_hex w)"

text \<open>
  What a run of \<^verbatim>\<open>main\<close> leaves behind: the exception that leaves \<^verbatim>\<open>main\<close>, if any, the
  actions in order, and the warning and error lines printed. The decorative output (the
  banner, the recipes, the troubleshooting hints, the symbol in front of the error line)
  is left out. The constructors of the library objects (\<^verbatim>\<open>CoagentClient\<close>, \<^verbatim>\<open>OllamaLLM\<close>,
  the parser) open no connection and are taken not to raise.
\<close>

record 't run =
  raised :: "exn option"
  actions :: "'t action list"
  printed :: "string list"

text \<open>
  The outer \<^verbatim>\<open>except\<close> block: print the error, attempt \<^verbatim>\<open>log_session_end\<close> with the error
  text and an elapsed time of 0, print a warning if that raises. Nothing is raised again.
\<close>

definition except_block :: "'t world \<Rightarrow> exn \<Rightarrow> 't action list \<Rightarrow> string list \<Rightarrow> 't run" where
  "except_block w e done_actions done_printed =
     (let call = log_session_end (run_id_of w) (''Error: '' @ str e) 1 0 0 None
      in \<lparr> raised = None,
           actions = done_actions @ [Client call],
           printed = done_printed @ [''Error: '' @ str e] @
             (case client w call of
                None \<Rightarrow> []
              | Some log_error \<Rightarrow> [''Warning: Failed to log error: '' @ str log_error]) \<rparr>)"

definition main :: "'t world \<Rightarrow> 't run" where
  "main w =
     (let run_id = run_id_of w;
          call_start =
            log_session_start run_id
              ''Generate structured recipes using LangChain with Ollama'' 1 0;
          printed_start =
            (case client w call_start of
               None \<Rightarrow> []
             | Some e \<Rightarrow> [''Warning: Failed to log session start: '' @ str e]);
          metadata_extractor = MetadataExtractor_init default_config;
          ingredients_list = default_ingredients (recipes_config default_config);
          g = generate_structured_recipes w run_id ingredients_list (Some metadata_extractor);
          done_actions = Client call_start # trace g;
          done_printed = printed_start @ console g
      in case result g of
           Inl e \<Rightarrow> except_block w e done_actions done_printed
         | Inr recipe_collection \<Rightarrow>
             (let output_file = ''generated_recipes.json''
              in case open_file w output_file of
                   Some e \<Rightarrow> except_block w e done_actions done_printed
                 | None \<Rightarrow>
                     (let call_end =
                            log_session_end run_id
                              (''Generated '' @ str_nat (length (recipes recipe_collection)) @
                               '' recipes successfully'')
                              1 0 (elapsed_time w)
                              (map_option metadata (extractor g))
                      in \<lparr> raised = None,
                           actions = done_actions @
                             [WriteFile output_file recipe_collection 2, Client call_end],
                           printed = done_printed @
                             (case client w call_end of
                                None \<Rightarrow> []
                              | Some e \<Rightarrow> [''Warning: Failed to log session end: '' @ str e]) \<rparr>)))"

subsection \<open>The schema validator\<close>

text \<open>
  Modelled from the spec: the parsing and validation of a raw reply is done by the
  output-parser and data-model libraries, which are not part of the source; only the
  declaration of the schema (\<^verbatim>\<open>Recipe\<close>, \<^verbatim>\<open>RecipeCollection\<close>) is. Following section 4.2 of the
  specification, a reply that is not structurally well-formed fails with
  \<open>MalformedOutput\<close>, a well-formed reply that violates a field constraint (a wrong field
  type, a missing required field) fails with \<open>SchemaViolation\<close>, and one invalid record
  invalidates the whole batch. The fields, their types and the absence of any bound on
  the length of \<^verbatim>\<open>recipes: List[Recipe]\<close> are the source's. The decoder of the structured
  text is the parameter \<open>loads\<close>; fractional numbers are not modelled.
\<close>

datatype json =
  JNull
  | JBool bool
  | JNumber int
  | JString string
  | JArray "json list"
  | JObject "(string \<times> json) list"

datatype parse_error = MalformedOutput | SchemaViolation

fun as_str :: "json \<Rightarrow> string option" where
  "as_str (JString s) = Some s"
| "as_str _ = None"

fun as_int :: "json \<Rightarrow> int option" where
  "as_int (JNumber n) = Some n"
| "as_int _ = None"

text \<open>All elements converted, or \<open>None\<close> as soon as one fails.\<close>

fun all_of :: "('a \<Rightarrow> 'b option) \<Rightarrow> 'a list \<Rightarrow> 'b list option" where
  "all_of f [] = Some []"
| "all_of f (x # xs) =
     (case f x of
        None \<Rightarrow> None
      | Some y \<Rightarrow> (case all_of f xs of None \<Rightarrow> None | Some ys \<Rightarrow> Some (y # ys)))"

fun as_str_list :: "json \<Rightarrow> string list option" where
  "as_str_list (JArray xs) = all_of as_str xs"
| "as_str_list _ = None"

text \<open>
  Modelled from the spec: the validation of the declared fields, which the data-model
  library derives from the class declarations. A required field is present and of the
  declared type; fields that are not declared are ignored.
\<close>

definition required :: "(string \<times> json) list \<Rightarrow> string \<Rightarrow> (json \<Rightarrow> 'a option) \<Rightarrow> 'a option" where
  "required obj key conv = (case map_of obj key of None \<Rightarrow> None | Some v \<Rightarrow> conv v)"

fun validate_Recipe :: "json \<Rightarrow> Recipe option" where
  "validate_Recipe (JObject obj) =
     (case required obj ''name'' as_str of None \<Rightarrow> None | Some n \<Rightarrow>
      case required obj ''ingredients'' as_str_list of None \<Rightarrow> None | Some ings \<Rightarrow>
      case required obj ''instructions'' as_str_list of None \<Rightarrow> None | Some ins \<Rightarrow>
      case required obj ''prep_time_minutes'' as_int of None \<Rightarrow> None | Some p \<Rightarrow>
      case required obj ''cook_time_minutes'' as_int of None \<Rightarrow> None | Some c \<Rightarrow>
      case required obj ''servings'' as_int of None \<Rightarrow> None | Some sv \<Rightarrow>
        Some \<lparr> name = n, ingredients = ings, instructions = ins,
               prep_time_minutes = p, cook_time_minutes = c, servings = sv \<rparr>)"
| "validate_Recipe _ = None"

fun as_recipe_list :: "json \<Rightarrow> Recipe list option" where
  "as_recipe_list (JArray xs) = all_of validate_Recipe xs"
| "as_recipe_list _ = None"

fun validate_RecipeCollection :: "json \<Rightarrow> RecipeCollection option" where
  "validate_RecipeCollection (JObject obj) =
     (case required obj ''recipes'' as_recipe_list of
        None \<Rightarrow> None
      | Some rs \<Rightarrow> Some \<lparr> recipes = rs \<rparr>)"
| "validate_RecipeCollection _ = None"

text \<open>
  Modelled from the spec: the parser's \<^verbatim>\<open>parse\<close>, which is library code. A reply that does
  not decode is \<open>MalformedOutput\<close>; a decoded reply that fails validation is
  \<open>SchemaViolation\<close>; otherwise the validated collection is returned whole.
\<close>

definition parse :: "(string \<Rightarrow> json option) \<Rightarrow> string \<Rightarrow> parse_error + RecipeCollection" where
  "parse loads reply =
     (case loads reply of
        None \<Rightarrow> Inl MalformedOutput
      | Some j \<Rightarrow>
          (case validate_RecipeCollection j of
             None \<Rightarrow> Inl SchemaViolation
           | Some rc \<Rightarrow> Inr rc))"

text \<open>
  Conformance to the schema as it is documented, as a check of the decoded reply that
  builds nothing: in every record each declared field is present with a value of its
  declared type, and the collection holds the declared number of records, the three of
  the docstring \<^verbatim>\<open>Collection of three recipes\<close> and of \<^verbatim>\<open>max_recipes\<close>.
\<close>

fun is_string :: "json \<Rightarrow> bool" where
  "is_string (JString _) = True"
| "is_string _ = False"

fun is_integer :: "json \<Rightarrow> bool" where
  "is_integer (JNumber _) = True"
| "is_integer _ = False"

fun is_string_list :: "json \<Rightarrow> bool" where
  "is_string_list (JArray xs) = list_all is_string xs"
| "is_string_list _ = False"

definition has_field :: "(string \<times> json) list \<Rightarrow> string \<Rightarrow> (json \<Rightarrow> bool) \<Rightarrow> bool" where
  "has_field obj key ok = (case map_of obj key of None \<Rightarrow> False | Some v \<Rightarrow> ok v)"

fun record_conforms :: "json \<Rightarrow> bool" where
  "record_conforms (JObject obj) =
     (has_field obj ''name'' is_string \<and>
      has_field obj ''ingredients'' is_string_list \<and>
      has_field obj ''instructions'' is_string_list \<and>
      has_field obj ''prep_time_minutes'' is_integer \<and>
      has_field obj ''cook_time_minutes'' is_integer \<and>
      has_field obj ''servings'' is_integer)"
| "record_conforms _ = False"

text \<open>The records of a reply: the elements of its \<^verbatim>\<open>recipes\<close> array.\<close>

fun records_of :: "json \<Rightarrow> json list" where
  "records_of (JObject obj) =
     (case map_of obj ''recipes'' of Some (JArray xs) \<Rightarrow> xs | _ \<Rightarrow> [])"
| "records_of _ = []"

fun conforms :: "json \<Rightarrow> bool" where
  "conforms (JObject obj) =
     (case map_of obj ''recipes'' of
        Some (JArray xs) \<Rightarrow>
          int (length xs) = max_recipes (recipes_config default_config) \<and>
          list_all record_conforms xs
      | _ \<Rightarrow> False)"
| "conforms _ = False"

definition required_fields :: "string list" where
  "required_fields =
     [''name'', ''ingredients'', ''instructions'', ''prep_time_minutes'',
      ''cook_time_minutes'', ''servings'']"

text \<open>A record that is an object without one of the six required fields.\<close>

fun lacks_required_field :: "json \<Rightarrow> bool" where
  "lacks_required_field (JObject obj) =
     list_ex (\<lambda>key. map_of obj key = None) required_fields"
| "lacks_required_field _ = False"

text \<open>
  A reply missing a required field: an object without \<^verbatim>\<open>recipes\<close>, or one whose \<^verbatim>\<open>recipes\<close>
  array holds a record without one of its required fields.
\<close>

fun missing_required_field :: "json \<Rightarrow> bool" where
  "missing_required_field (JObject obj) =
     (case map_of obj ''recipes'' of
        None \<Rightarrow> True
      | Some (JArray xs) \<Rightarrow> list_ex lacks_required_field xs
      | Some _ \<Rightarrow> False)"
| "missing_required_field _ = False"

subsection \<open>Reading a run\<close>

text \<open>The four kinds of telemetry event, and the kind and session of a client call.\<close>

datatype event_kind = SessionStart | PromptLogged | ResponseLogged | SessionEnd

fun kind_of :: "'t client_call \<Rightarrow> event_kind" where
  "kind_of (log_session_start _ _ _ _) = SessionStart"
| "kind_of (log_llm_call_new _ _ _ _ _ _) = PromptLogged"
| "kind_of (log_llm_response _ _ _ _ _ _ _) = ResponseLogged"
| "kind_of (log_session_end _ _ _ _ _ _) = SessionEnd"

fun session_of :: "'t client_call \<Rightarrow> string" where
  "session_of (log_session_start s _ _ _) = s"
| "session_of (log_llm_call_new s _ _ _ _ _) = s"
| "session_of (log_llm_response s _ _ _ _ _ _) = s"
| "session_of (log_session_end s _ _ _ _ _) = s"

text \<open>The telemetry calls of a trace, and the files it writes, in order.\<close>

fun calls_of :: "'t action list \<Rightarrow> 't client_call list" where
  "calls_of [] = []"
| "calls_of (Client c # as) = c # calls_of as"
| "calls_of (_ # as) = calls_of as"

fun writes_of :: "'t action list \<Rightarrow> (string \<times> RecipeCollection \<times> nat) list" where
  "writes_of [] = []"
| "writes_of (WriteFile f c i # as) = (f, c, i) # writes_of as"
| "writes_of (_ # as) = writes_of as"

fun is_invoke :: "'t action \<Rightarrow> bool" where
  "is_invoke (Invoke _ _) = True"
| "is_invoke _ = False"

text \<open>The number of positions of a text at which a given text starts.\<close>

fun occurrences :: "'a list \<Rightarrow> 'a list \<Rightarrow> nat" where
  "occurrences needle [] = (if needle = [] then 1 else 0)"
| "occurrences needle (x # xs) =
     (if prefix needle (x # xs) then 1 else 0) + occurrences needle xs"

subsection \<open>Sample data\<close>

definition sample_recipe :: Recipe where
  "sample_recipe =
     \<lparr> name = ''Chicken rice'', ingredients = [''chicken'', ''rice''],
       instructions = [''Boil the rice'', ''Fry the chicken''],
       prep_time_minutes = 10, cook_time_minutes = 25, servings = 2 \<rparr>"

definition three_recipes :: RecipeCollection where
  "three_recipes = \<lparr> recipes = [sample_recipe, sample_recipe, sample_recipe] \<rparr>"

text \<open>
  Handlers that observe one model call from clock reading 100 to 107 whose single
  generation record reports 120 prompt tokens and 340 completion tokens.
\<close>

definition observed_usage :: "int MetadataExtractor \<Rightarrow> int MetadataExtractor" where
  "observed_usage ex =
     (case on_llm_end (on_llm_start ex [] [''prompt''] 100)
             \<lparr> generations = [[with_usage 120 340]] \<rparr> 107 of
        Inl e \<Rightarrow> on_llm_start ex [] [''prompt''] 100
      | Inr ex' \<Rightarrow> ex')"

text \<open>A world in which the chain returns three recipes and nothing fails.\<close>

definition sample_world :: "int world" where
  "sample_world =
     \<lparr> chain_invoke = (\<lambda>items instructions_text. Inr three_recipes),
       callbacks = observed_usage,
       client = (\<lambda>call. None),
       get_format_instructions = ''Return a JSON object.'',
       model_dump_json = (\<lambda>c. ''{}''),
       open_file = (\<lambda>f. None),
       uuid4_hex = ''0123456789abcdef0123456789abcdef'',
       elapsed_time = 7000 \<rparr>"

definition unreachable :: exn where
  "unreachable = LibraryError ''connection refused''"

text \<open>The two calls of the logging block, as \<^verbatim>\<open>generate_structured_recipes\<close> builds them.\<close>

definition prompt_call :: "'t world \<Rightarrow> string \<Rightarrow> string list \<Rightarrow> 't client_call" where
  "prompt_call w run_id items =
     log_llm_call_new run_id
       (full_prompt (join '', '' items) (get_format_instructions w)) 1 1 ''langchain''
       ''You are a professional chef and cooking assistant.''"

definition response_call ::
  "'t world \<Rightarrow> string \<Rightarrow> RecipeCollection \<Rightarrow> int option \<Rightarrow> int option \<Rightarrow> int option \<Rightarrow> 't client_call"
where
  "response_call w run_id res i out tot =
     log_llm_response run_id (model_dump_json w res) 1 1 i out tot"

text \<open>The usage entry is absent or a dictionary, as \<^verbatim>\<open>on_llm_end\<close> writes it.\<close>

definition usage_readable :: "'t MetadataExtractor \<Rightarrow> bool" where
  "usage_readable ex =
     (case metadata ex ''usage'' of
        None \<Rightarrow> True
      | Some (PyDict d) \<Rightarrow> True
      | Some _ \<Rightarrow> False)"

definition default_items :: "string list" where
  "default_items = default_ingredients (recipes_config default_config)"

text \<open>The first and, on an error, the last telemetry call of \<^verbatim>\<open>main\<close>, as it builds them.\<close>

definition session_start_call :: "'t world \<Rightarrow> 't client_call" where
  "session_start_call w =
     log_session_start (run_id_of w)
       ''Generate structured recipes using LangChain with Ollama'' 1 0"

definition error_end_call :: "'t world \<Rightarrow> exn \<Rightarrow> 't client_call" where
  "error_end_call w e = log_session_end (run_id_of w) (''Error: '' @ str e) 1 0 0 None"

text \<open>The sample world with a chain that raises, and with another random identifier.\<close>

definition failing_world :: "int world" where
  "failing_world = sample_world\<lparr> chain_invoke := (\<lambda>items instructions_text. Inl unreachable) \<rparr>"

definition other_world :: "int world" where
  "other_world = sample_world\<lparr> uuid4_hex := ''fedcba9876543210fedcba9876543210'' \<rparr>"

text \<open>
  Decoded replies: a record with all six fields, one without \<^verbatim>\<open>servings\<close>, and replies of
  two, of three and of one incomplete record.
\<close>

definition recipe_json :: json where
  "recipe_json =
     JObject
       [(''name'', JString ''Chicken rice''),
        (''ingredients'', JArray [JString ''chicken'', JString ''rice'']),
        (''instructions'', JArray [JString ''Boil the rice'', JString ''Fry the chicken'']),
        (''prep_time_minutes'', JNumber 10),
        (''cook_time_minutes'', JNumber 25),
        (''servings'', JNumber 2)]"

definition incomplete_recipe_json :: json where
  "incomplete_recipe_json =
     JObject
       [(''name'', JString ''Chicken rice''),
        (''ingredients'', JArray [JString ''chicken'', JString ''rice'']),
        (''instructions'', JArray [JString ''Boil the rice'', JString ''Fry the chicken'']),
        (''prep_time_minutes'', JNumber 10),
        (''cook_time_minutes'', JNumber 25)]"

definition two_recipes_reply :: json where
  "two_recipes_reply = JObject [(''recipes'', JArray [recipe_json, recipe_json])]"

definition three_recipes_reply :: json where
  "three_recipes_reply = JObject [(''recipes'', JArray [recipe_json, recipe_json, recipe_json])]"

definition incomplete_reply :: json where
  "incomplete_reply = JObject [(''recipes'', JArray [recipe_json, incomplete_recipe_json])]"


section \<open>Properties\<close>

subsection \<open>The instrumentor\<close>

text \<open>
  Whatever the inner loop iterates over, each record with a non-empty \<^verbatim>\<open>generation_info\<close>
  adds the counters of the first record of the list.
\<close>

lemma inner_loop_first_candidate:
  assumes "generation_info g0 = Some info"
    and "map_of info ''prompt_eval_count'' = Some a"
    and "map_of info ''eval_count'' = Some b"
  shows "inner_loop (g0 # gs) xs (i, out) =
     Inr (i + a * int (length (filter (\<lambda>g. truthy (generation_info g)) xs)),
          out + b * int (length (filter (\<lambda>g. truthy (generation_info g)) xs)))"
  using assms
  by (induction xs arbitrary: i out) (simp_all add: algebra_simps)

text \<open>With one candidate per list the first record is the record itself.\<close>

lemma inner_loop_single:
  assumes "counted g"
  shows "inner_loop [g] [g] (i, out) =
     Inr (i + own_counter ''prompt_eval_count'' g, out + own_counter ''eval_count'' g)"
proof (cases "generation_info g")
  case None
  then show ?thesis by (simp add: own_counter_def)
next
  case (Some info)
  show ?thesis
  proof (cases "info = []")
    case True
    with Some show ?thesis by (simp add: own_counter_def)
  next
    case False
    with assms Some obtain a b where "map_of info ''prompt_eval_count'' = Some a"
      and "map_of info ''eval_count'' = Some b"
      by (auto simp: counted_def)
    with Some False show ?thesis by (simp add: own_counter_def)
  qed
qed

lemma outer_loop_single:
  assumes "list_all single_candidate gens"
  shows "outer_loop gens (i, out) =
     Inr (i + sum_list (map (own_counter ''prompt_eval_count'') (concat gens)),
          out + sum_list (map (own_counter ''eval_count'') (concat gens)))"
  using assms
proof (induction gens arbitrary: i out)
  case Nil
  then show ?case by simp
next
  case (Cons gen gens)
  then obtain g where gen: "gen = [g]" and g: "counted g"
    by (cases gen rule: single_candidate.cases) simp_all
  from Cons have rest: "list_all single_candidate gens" by simp
  have step: "inner_loop gen gen (i, out) =
      Inr (i + own_counter ''prompt_eval_count'' g, out + own_counter ''eval_count'' g)"
    unfolding gen by (rule inner_loop_single [OF g])
  have "outer_loop (gen # gens) (i, out) =
      outer_loop gens (i + own_counter ''prompt_eval_count'' g, out + own_counter ''eval_count'' g)"
    by (simp only: outer_loop.simps step sum.case)
  then show ?case
    by (simp add: gen Cons.IH [OF rest] add.assoc)
qed

subsection \<open>The generator and \<^verbatim>\<open>main\<close>\<close>

lemma result_generate:
  "result (generate_structured_recipes w run_id items mx) =
     chain_invoke w (join '', '' items) (get_format_instructions w)"
  by (simp add: generate_structured_recipes_def Let_def split: sum.splits option.splits)

lemma generate_raises:
  assumes "chain_invoke w (join '', '' items) (get_format_instructions w) = Inl e"
  shows "generate_structured_recipes w run_id items mx =
     \<lparr> result = Inl e, trace = [Invoke (join '', '' items) (get_format_instructions w)],
       console = [], extractor = map_option (callbacks w) mx \<rparr>"
  using assms by (simp add: generate_structured_recipes_def Let_def)

lemma trace_generate_head:
  "\<exists>rest. trace (generate_structured_recipes w run_id items mx) =
     Invoke (join '', '' items) (get_format_instructions w) # rest
     \<and> list_all (\<lambda>a. \<not> is_invoke a) rest \<and> writes_of rest = []
     \<and> list_all (\<lambda>c. session_of c = run_id) (calls_of rest)
     \<and> subseq (map kind_of (calls_of rest)) [PromptLogged, ResponseLogged]"
  by (simp add: generate_structured_recipes_def Let_def split: sum.splits option.splits)

lemma generate_None:
  assumes "chain_invoke w (join '', '' items) (get_format_instructions w) = Inr res"
  shows "generate_structured_recipes w run_id items None =
     \<lparr> result = Inr res,
       trace = [Invoke (join '', '' items) (get_format_instructions w),
                Client (prompt_call w run_id items)],
       console =
         [llm_warning (case client w (prompt_call w run_id items) of
            Some e \<Rightarrow> e
          | None \<Rightarrow> AttributeError ''NoneType object has no attribute metadata'')],
       extractor = None \<rparr>"
  using assms
  by (simp add: generate_structured_recipes_def Let_def prompt_call_def usage_get_def
      split: option.splits)

lemma generate_no_usage:
  assumes "chain_invoke w (join '', '' items) (get_format_instructions w) = Inr res"
    and "metadata (callbacks w ex) ''usage'' = None"
    and "client w (prompt_call w run_id items) = None"
  shows "generate_structured_recipes w run_id items (Some ex) =
     \<lparr> result = Inr res,
       trace = [Invoke (join '', '' items) (get_format_instructions w),
                Client (prompt_call w run_id items),
                Client (response_call w run_id res None None None)],
       console =
         (case client w (response_call w run_id res None None None) of
            None \<Rightarrow> [] | Some e \<Rightarrow> [llm_warning e]),
       extractor = Some (callbacks w ex) \<rparr>"
  using assms
  by (simp add: generate_structured_recipes_def Let_def prompt_call_def response_call_def usage_get_def
      split: option.splits)

lemma generate_client_raises:
  assumes "chain_invoke w (join '', '' items) (get_format_instructions w) = Inr res"
    and "client w (prompt_call w run_id items) = Some e"
  shows "generate_structured_recipes w run_id items mx =
     \<lparr> result = Inr res,
       trace = [Invoke (join '', '' items) (get_format_instructions w),
                Client (prompt_call w run_id items)],
       console = [llm_warning e],
       extractor = map_option (callbacks w) mx \<rparr>"
  using assms
  by (simp add: generate_structured_recipes_def Let_def prompt_call_def)

lemma raised_main: "raised (main w) = None"
  by (simp add: main_def except_block_def Let_def split: sum.splits option.splits)

lemma writes_of_append: "writes_of (xs @ ys) = writes_of xs @ writes_of ys"
  by (induction xs rule: writes_of.induct) simp_all

lemma calls_of_append: "calls_of (xs @ ys) = calls_of xs @ calls_of ys"
  by (induction xs rule: calls_of.induct) simp_all

lemma writes_of_trace_generate: "writes_of (trace (generate_structured_recipes w run_id items mx)) = []"
  using trace_generate_head [of w run_id items mx] by auto

lemma writes_of_main:
  "writes_of (actions (main w)) =
     (case chain_invoke w (join '', '' (default_ingredients (recipes_config default_config)))
             (get_format_instructions w) of
        Inl e \<Rightarrow> []
      | Inr res \<Rightarrow>
          (case open_file w ''generated_recipes.json'' of
             Some e \<Rightarrow> []
           | None \<Rightarrow> [(''generated_recipes.json'', res, 2)]))"
  by (simp add: main_def except_block_def Let_def result_generate writes_of_append
      writes_of_trace_generate split: sum.splits option.splits)

lemma main_raises:
  assumes "chain_invoke w (join '', '' default_items) (get_format_instructions w) = Inl e"
  shows "main w =
     \<lparr> raised = None,
       actions = [Client (session_start_call w),
                  Invoke (join '', '' default_items) (get_format_instructions w),
                  Client (error_end_call w e)],
       printed =
         (case client w (session_start_call w) of
            None \<Rightarrow> []
          | Some e' \<Rightarrow> [''Warning: Failed to log session start: '' @ str e']) @
         [''Error: '' @ str e] @
         (case client w (error_end_call w e) of
            None \<Rightarrow> []
          | Some e' \<Rightarrow> [''Warning: Failed to log error: '' @ str e']) \<rparr>"
  using assms
  by (simp add: main_def Let_def generate_raises except_block_def default_items_def
      session_start_call_def error_end_call_def)

lemma generate_logs_both:
  assumes "chain_invoke w (join '', '' items) (get_format_instructions w) = Inr res"
    and "client w (prompt_call w run_id items) = None"
    and "usage_readable (callbacks w ex)"
  shows "\<exists>i out tot. trace (generate_structured_recipes w run_id items (Some ex)) =
     [Invoke (join '', '' items) (get_format_instructions w),
      Client (prompt_call w run_id items),
      Client (response_call w run_id res i out tot)]"
  using assms
  by (auto simp: generate_structured_recipes_def Let_def prompt_call_def response_call_def
      usage_get_def usage_readable_def split: option.splits mvalue.splits)

lemma main_shape:
  "\<exists>rest final.
     actions (main w) =
       Client (session_start_call w) #
       Invoke (join '', '' default_items) (get_format_instructions w) # rest @ [Client final]
     \<and> kind_of final = SessionEnd \<and> session_of final = run_id_of w
     \<and> list_all (\<lambda>a. \<not> is_invoke a) rest
     \<and> list_all (\<lambda>c. session_of c = run_id_of w) (calls_of rest)
     \<and> subseq (map kind_of (calls_of rest)) [PromptLogged, ResponseLogged]"
proof -
  let ?g = "generate_structured_recipes w (run_id_of w) default_items
     (Some (MetadataExtractor_init default_config))"
  obtain rest where tr: "trace ?g = Invoke (join '', '' default_items) (get_format_instructions w) # rest"
    and r1: "list_all (\<lambda>a. \<not> is_invoke a) rest" and r2: "writes_of rest = []"
    and r3: "list_all (\<lambda>c. session_of c = run_id_of w) (calls_of rest)"
    and r4: "subseq (map kind_of (calls_of rest)) [PromptLogged, ResponseLogged]"
    using trace_generate_head [of w "run_id_of w" default_items "Some (MetadataExtractor_init default_config)"]
    by blast
  show ?thesis
  proof (cases "result ?g")
    case (Inl e)
    then have "actions (main w) = Client (session_start_call w) #
       Invoke (join '', '' default_items) (get_format_instructions w) # rest @
         [Client (error_end_call w e)]"
      by (simp add: main_def Let_def except_block_def tr session_start_call_def error_end_call_def
          default_items_def [symmetric])
    with r1 r3 r4 show ?thesis by (simp add: error_end_call_def)
  next
    case (Inr res)
    show ?thesis
    proof (cases "open_file w ''generated_recipes.json''")
      case (Some e)
      with Inr have "actions (main w) = Client (session_start_call w) #
         Invoke (join '', '' default_items) (get_format_instructions w) # rest @
           [Client (error_end_call w e)]"
        by (simp add: main_def Let_def except_block_def tr session_start_call_def error_end_call_def
            default_items_def [symmetric])
      with r1 r3 r4 show ?thesis by (simp add: error_end_call_def)
    next
      case None
      with Inr obtain final where a: "actions (main w) = Client (session_start_call w) #
         Invoke (join '', '' default_items) (get_format_instructions w) #
           (rest @ [WriteFile ''generated_recipes.json'' res 2]) @ [Client final]"
        and f: "kind_of final = SessionEnd" "session_of final = run_id_of w"
        by (simp add: main_def Let_def tr session_start_call_def default_items_def [symmetric])
      have "list_all (\<lambda>a. \<not> is_invoke a) (rest @ [WriteFile ''generated_recipes.json'' res 2])"
        using r1 by simp
      moreover have "calls_of (rest @ [WriteFile ''generated_recipes.json'' res 2]) = calls_of rest"
        by (simp add: calls_of_append)
      ultimately show ?thesis using a f r3 r4 by metis
    qed
  qed
qed

subsection \<open>The validator\<close>

lemma all_of_Some:
  assumes "list_all (\<lambda>x. \<exists>y. f x = Some y) xs"
  shows "\<exists>ys. all_of f xs = Some ys \<and> length ys = length xs"
  using assms by (induction xs) auto

lemma all_of_None:
  assumes "list_ex (\<lambda>x. f x = None) xs"
  shows "all_of f xs = None"
  using assms by (induction xs) (auto split: option.splits)

lemma is_string_as_str: "is_string v \<Longrightarrow> \<exists>s. as_str v = Some s"
  by (cases v) simp_all

lemma is_integer_as_int: "is_integer v \<Longrightarrow> \<exists>n. as_int v = Some n"
  by (cases v) simp_all

lemma is_string_list_as_str_list: "is_string_list v \<Longrightarrow> \<exists>l. as_str_list v = Some l"
proof (cases v)
  case (JArray xs)
  assume "is_string_list v"
  with JArray have "list_all (\<lambda>x. \<exists>y. as_str x = Some y) xs"
    by (auto simp: list_all_iff dest: is_string_as_str)
  from all_of_Some [OF this] JArray show ?thesis by auto
qed simp_all

lemma has_field_required:
  assumes "has_field obj key ok" and "\<And>v. ok v \<Longrightarrow> \<exists>x. conv v = Some x"
  shows "\<exists>x. required obj key conv = Some x"
  using assms by (auto simp: has_field_def required_def split: option.splits)

lemma record_conforms_validate:
  assumes "record_conforms r"
  shows "\<exists>x. validate_Recipe r = Some x"
proof (cases r)
  case (JObject obj)
  with assms have h:
    "has_field obj ''name'' is_string" "has_field obj ''ingredients'' is_string_list"
    "has_field obj ''instructions'' is_string_list" "has_field obj ''prep_time_minutes'' is_integer"
    "has_field obj ''cook_time_minutes'' is_integer" "has_field obj ''servings'' is_integer"
    by simp_all
  obtain n where n: "required obj ''name'' as_str = Some n"
    using has_field_required [where ok = is_string and conv = as_str, OF h(1)] is_string_as_str by blast
  obtain ings where ings: "required obj ''ingredients'' as_str_list = Some ings"
    using has_field_required [where ok = is_string_list and conv = as_str_list, OF h(2)] is_string_list_as_str_list by blast
  obtain ins where ins: "required obj ''instructions'' as_str_list = Some ins"
    using has_field_required [where ok = is_string_list and conv = as_str_list, OF h(3)] is_string_list_as_str_list by blast
  obtain p where p: "required obj ''prep_time_minutes'' as_int = Some p"
    using has_field_required [where ok = is_integer and conv = as_int, OF h(4)] is_integer_as_int by blast
  obtain c where c: "required obj ''cook_time_minutes'' as_int = Some c"
    using has_field_required [where ok = is_integer and conv = as_int, OF h(5)] is_integer_as_int by blast
  obtain sv where sv: "required obj ''servings'' as_int = Some sv"
    using has_field_required [where ok = is_integer and conv = as_int, OF h(6)] is_integer_as_int by blast
  show ?thesis by (simp add: JObject n ings ins p c sv)
qed (use assms in simp_all)

lemma conforms_validate:
  assumes "conforms j"
  shows "\<exists>rc. validate_RecipeCollection j = Some rc
    \<and> int (length (recipes rc)) = max_recipes (recipes_config default_config)"
proof (cases j)
  case (JObject obj)
  with assms obtain xs where xs: "map_of obj ''recipes'' = Some (JArray xs)"
    and len: "int (length xs) = max_recipes (recipes_config default_config)"
    and all: "list_all record_conforms xs"
    by (auto split: option.splits json.splits)
  from all have "list_all (\<lambda>x. \<exists>y. validate_Recipe x = Some y) xs"
    by (auto simp: list_all_iff dest: record_conforms_validate)
  from all_of_Some [OF this] obtain rs where "all_of validate_Recipe xs = Some rs"
    and "length rs = length xs" by blast
  with len show ?thesis by (simp add: JObject xs required_def)
qed (use assms in simp_all)

lemma lacks_required_field_validate:
  assumes "lacks_required_field r"
  shows "validate_Recipe r = None"
proof (cases r)
  case (JObject obj)
  with assms have "map_of obj ''name'' = None \<or> map_of obj ''ingredients'' = None \<or>
    map_of obj ''instructions'' = None \<or> map_of obj ''prep_time_minutes'' = None \<or>
    map_of obj ''cook_time_minutes'' = None \<or> map_of obj ''servings'' = None"
    by (simp add: required_fields_def)
  then show ?thesis
    by (auto simp: JObject required_def split: option.splits)
qed (use assms in simp_all)

lemma missing_required_field_validate:
  assumes "missing_required_field j"
  shows "validate_RecipeCollection j = None"
proof (cases j)
  case (JObject obj)
  show ?thesis
  proof (cases "map_of obj ''recipes''")
    case None
    then show ?thesis by (simp add: JObject required_def)
  next
    case (Some v)
    with assms JObject obtain xs where v: "v = JArray xs" and ex: "list_ex lacks_required_field xs"
      by (cases v) simp_all
    from ex have "list_ex (\<lambda>x. validate_Recipe x = None) xs"
      by (auto simp: list_ex_iff dest: lacks_required_field_validate)
    from all_of_None [OF this] show ?thesis
      by (simp add: JObject Some v required_def)
  qed
qed (use assms in simp_all)

subsection \<open>Occurrences of a text in a prompt\<close>

lemma occurrences_sublist: "occurrences n ys \<noteq> 0 \<Longrightarrow> sublist n ys"
proof (induction ys)
  case Nil
  then show ?case by (simp split: if_splits)
next
  case (Cons y ys)
  show ?case
  proof (cases "prefix n (y # ys)")
    case True
    then show ?thesis by (rule prefix_imp_sublist)
  next
    case False
    with Cons.prems have "occurrences n ys \<noteq> 0" by simp
    then have "sublist n ys" by (rule Cons.IH)
    then show ?thesis by (simp add: sublist_Cons_right)
  qed
qed

lemma occurrences_prefix: "prefix n ys \<Longrightarrow> 1 \<le> occurrences n ys"
  by (cases ys) simp_all

lemma occurrences_ge1: "1 \<le> occurrences n (p @ n @ t)"
proof (induction p)
  case Nil
  show ?case using occurrences_prefix [of n "n @ t"] by simp
next
  case (Cons x p)
  then show ?case by simp
qed

lemma slot_unique:
  assumes c: "c \<in> set n" and p: "c \<notin> set p" and t: "c \<notin> set t"
    and eq: "p @ n @ t = a @ n @ b"
  shows "a = p"
proof -
  have "count_list (p @ n @ t) c = count_list (a @ n @ b) c" using eq by simp
  with p t have "count_list a c = 0" by (simp add: count_list_0_iff)
  then have a: "c \<notin> set a" by (simp add: count_list_0_iff)
  have n: "takeWhile (\<lambda>x. x \<noteq> c) (n @ t) = takeWhile (\<lambda>x. x \<noteq> c) n" for t
    using c by (auto simp: takeWhile_append)
  have l: "takeWhile (\<lambda>x. x \<noteq> c) (p @ n @ t) = p @ takeWhile (\<lambda>x. x \<noteq> c) n"
    using p n [of t] by (simp add: takeWhile_append)
  have r: "takeWhile (\<lambda>x. x \<noteq> c) (a @ n @ b) = a @ takeWhile (\<lambda>x. x \<noteq> c) n"
    using a n [of b] by (simp add: takeWhile_append)
  from l r eq have "p @ takeWhile (\<lambda>x. x \<noteq> c) n = a @ takeWhile (\<lambda>x. x \<noteq> c) n" by simp
  then show ?thesis by simp
qed

lemma occurrences_slot:
  assumes c: "c \<in> set n" and p: "c \<notin> set p" and t: "c \<notin> set t"
  shows "occurrences n (p @ n @ t) = 1"
  using p
proof (induction p)
  case Nil
  from c obtain f fs where n: "n = f # fs" by (cases n) auto
  have "occurrences n (fs @ t) = 0"
  proof (rule ccontr)
    assume "occurrences n (fs @ t) \<noteq> 0"
    then have "sublist n (fs @ t)" by (rule occurrences_sublist)
    then obtain a b where "fs @ t = a @ n @ b" by (auto simp: sublist_def)
    then have "[] @ n @ t = (f # a) @ n @ b" by (simp add: n)
    from slot_unique [OF c _ t this] show False by simp
  qed
  then show ?case by (simp add: n)
next
  case (Cons x p)
  then have px: "c \<notin> set (x # p)" and pp: "c \<notin> set p" by simp_all
  have "\<not> prefix n ((x # p) @ n @ t)"
  proof
    assume "prefix n ((x # p) @ n @ t)"
    then obtain b where "(x # p) @ n @ t = [] @ n @ b" by (auto simp: prefix_def)
    from slot_unique [OF c px t this] show False by simp
  qed
  with Cons.IH [OF pp] show ?case by simp
qed

lemma sublist_join: "item \<in> set items \<Longrightarrow> sublist item (join sep items)"
proof (induction sep items rule: join.induct)
  case (1 sep)
  then show ?case by simp
next
  case (2 sep x)
  then show ?case by simp
next
  case (3 sep x y ys)
  show ?case
  proof (cases "item = x")
    case True
    then show ?thesis by (simp add: prefix_imp_sublist)
  next
    case False
    with 3 have "sublist item (join sep (y # ys))" by simp
    then obtain a b where "join sep (y # ys) = a @ item @ b" by (auto simp: sublist_def)
    then have "join sep (x # y # ys) = (x @ sep @ a) @ item @ b" by simp
    then show ?thesis unfolding sublist_def by blast
  qed
qed

section \<open>The claims\<close>

text \<open>
  C1. The claim: \<^verbatim>\<open>on_llm_end\<close> accumulates, over all generation records of the response, the
  sum of each record's own prompt-eval and eval counters, and skips a record without usage
  counters without raising. The code tests \<^verbatim>\<open>gen_inner.generation_info\<close> but then reads
  \<^verbatim>\<open>gen[0].generation_info\<close>. For a response with the two candidates (10, 20) and (1, 2) it
  stores 20 input, 40 output and 60 total tokens where the records' own counters sum to 11
  and 22; for a response whose first candidate has no usage counters and whose second has
  them it raises \<^verbatim>\<open>TypeError\<close> instead of skipping.
\<close>

theorem on_llm_end_repeats_first_candidate:
  "map_sum id (\<lambda>ex. metadata ex ''usage'')
     (on_llm_end (on_llm_start (MetadataExtractor_init default_config) [] [''prompt''] (100::int))
        \<lparr> generations = [[with_usage 10 20, with_usage 1 2]] \<rparr> 107)
   = Inr (Some (PyDict [(''input_tokens'', 20), (''output_tokens'', 40), (''total_tokens'', 60)]))
   \<and> spec_input_token_count \<lparr> generations = [[with_usage 10 20, with_usage 1 2]] \<rparr> = 11
   \<and> spec_output_token_count \<lparr> generations = [[with_usage 10 20, with_usage 1 2]] \<rparr> = 22
   \<and> on_llm_end (on_llm_start (MetadataExtractor_init default_config) [] [''prompt''] (100::int))
        \<lparr> generations = [[without_usage, with_usage 1 2]] \<rparr> 107
      = Inl (TypeError ''NoneType object is not subscriptable'')"
  by (simp add: on_llm_end_def on_llm_start_def with_usage_def without_usage_def
      MetadataExtractor_init_def spec_input_token_count_def spec_output_token_count_def
      own_counter_def)

text \<open>
  C2. When the chain (model call and validation) succeeds, the result the generator
  returns is the chain's result whatever the telemetry client does: it is the same with a
  client that never raises and with one that always raises, the failure only shows as a
  warning line, \<^verbatim>\<open>main\<close> raises nothing, and \<^verbatim>\<open>main\<close> writes the same file.
\<close>

theorem telemetry_failure_keeps_result:
  assumes "chain_invoke w (join '', '' items) (get_format_instructions w) = Inr res"
  shows "result (generate_structured_recipes (w\<lparr>client := c\<rparr>) run_id items mx) = Inr res
    \<and> result (generate_structured_recipes (w\<lparr>client := (\<lambda>call. None)\<rparr>) run_id items mx) =
      result (generate_structured_recipes (w\<lparr>client := (\<lambda>call. Some e)\<rparr>) run_id items mx)
    \<and> console (generate_structured_recipes (w\<lparr>client := (\<lambda>call. Some e)\<rparr>) run_id items mx) =
        [llm_warning e]
    \<and> raised (main (w\<lparr>client := c\<rparr>)) = None
    \<and> writes_of (actions (main (w\<lparr>client := c\<rparr>))) = writes_of (actions (main w))"
proof -
  have "result (generate_structured_recipes (w\<lparr>client := c'\<rparr>) run_id items mx) = Inr res" for c'
    using assms by (simp add: result_generate)
  moreover have
    "console (generate_structured_recipes (w\<lparr>client := (\<lambda>call. Some e)\<rparr>) run_id items mx) =
      [llm_warning e]"
    using assms generate_client_raises [of "w\<lparr>client := (\<lambda>call. Some e)\<rparr>" items res run_id e mx]
    by simp
  moreover have "writes_of (actions (main (w\<lparr>client := c\<rparr>))) = writes_of (actions (main w))"
    by (simp add: writes_of_main split: sum.splits option.splits)
  ultimately show ?thesis by (simp add: raised_main)
qed

theorem telemetry_failure_keeps_result_witness:
  "chain_invoke sample_world (join '', '' [''chicken'', ''rice''])
     (get_format_instructions sample_world) = Inr three_recipes
   \<and> result (generate_structured_recipes (sample_world\<lparr>client := (\<lambda>call. Some unreachable)\<rparr>)
        ''recipe-gen-01234567'' [''chicken'', ''rice''] None) = Inr three_recipes
   \<and> result (generate_structured_recipes (sample_world\<lparr>client := (\<lambda>call. None)\<rparr>)
        ''recipe-gen-01234567'' [''chicken'', ''rice''] None) =
      result (generate_structured_recipes (sample_world\<lparr>client := (\<lambda>call. Some unreachable)\<rparr>)
        ''recipe-gen-01234567'' [''chicken'', ''rice''] None)
   \<and> console (generate_structured_recipes (sample_world\<lparr>client := (\<lambda>call. Some unreachable)\<rparr>)
        ''recipe-gen-01234567'' [''chicken'', ''rice''] None) = [llm_warning unreachable]"
proof -
  have h: "chain_invoke sample_world (join '', '' [''chicken'', ''rice''])
      (get_format_instructions sample_world) = Inr three_recipes"
    by (simp add: sample_world_def)
  note t = telemetry_failure_keeps_result
    [OF h, of "\<lambda>call. Some unreachable" "''recipe-gen-01234567''" None unreachable]
  from h t show ?thesis by blast
qed

text \<open>
  C3. The claim: a validated result holds the three records of the schema, which the class
  documents as \<^verbatim>\<open>Collection of three recipes\<close> and the field as \<^verbatim>\<open>List of three recipes\<close>. The
  field is declared \<^verbatim>\<open>recipes: List[Recipe]\<close> with no bound on its length, so validation
  accepts any number of complete records. A reply of two complete records does not conform
  to the three-record schema, yet it validates, to a collection of two records.
\<close>

theorem validation_accepts_two_records:
  "list_all record_conforms (records_of two_recipes_reply)
   \<and> length (records_of two_recipes_reply) = 2
   \<and> \<not> conforms two_recipes_reply
   \<and> validate_RecipeCollection two_recipes_reply =
       Some \<lparr> recipes = [sample_recipe, sample_recipe] \<rparr>
   \<and> parse (\<lambda>reply. Some two_recipes_reply) ''reply'' =
       Inr \<lparr> recipes = [sample_recipe, sample_recipe] \<rparr>
   \<and> max_recipes (recipes_config default_config) = 3"
  by (simp add: two_recipes_reply_def recipe_json_def parse_def required_def has_field_def
      sample_recipe_def default_config_def)

text \<open>
  C4, as amended. The prompt-composition step rejects no item list. For the empty list
  the joined item text is empty, the chain is invoked with it first, the call returns
  exactly what the chain returns, and after a successful chain call the prompt is logged
  as for any other list; for every item list the result is the chain's.
\<close>

theorem empty_item_list_is_invoked:
  "join '', '' [] = []
   \<and> result (generate_structured_recipes w run_id [] mx) =
       chain_invoke w [] (get_format_instructions w)
   \<and> (\<exists>rest. trace (generate_structured_recipes w run_id [] mx) =
         Invoke [] (get_format_instructions w) # rest)
   \<and> (chain_invoke w [] (get_format_instructions w) = Inr res \<longrightarrow>
       (\<exists>rest. trace (generate_structured_recipes w run_id [] mx) =
         Invoke [] (get_format_instructions w) # Client (prompt_call w run_id []) # rest))
   \<and> result (generate_structured_recipes w run_id items mx) =
       chain_invoke w (join '', '' items) (get_format_instructions w)"
proof -
  have "\<exists>rest. trace (generate_structured_recipes w run_id [] mx) =
         Invoke [] (get_format_instructions w) # rest"
    using trace_generate_head [of w run_id "[]" mx] by auto
  moreover have "chain_invoke w [] (get_format_instructions w) = Inr res \<longrightarrow>
       (\<exists>rest. trace (generate_structured_recipes w run_id [] mx) =
         Invoke [] (get_format_instructions w) # Client (prompt_call w run_id []) # rest)"
    by (simp add: generate_structured_recipes_def Let_def prompt_call_def
        split: sum.splits option.splits)
  ultimately show ?thesis
    using result_generate [of w run_id "[]" mx] result_generate [of w run_id items mx]
    by simp
qed

text \<open>
  The claim as stated fails: with an empty item list the call succeeds with the chain's
  three recipes, after invoking the chain and attempting both telemetry calls.
\<close>

theorem empty_item_list_counterexample:
  "result (generate_structured_recipes sample_world ''recipe-gen-01234567'' []
      (Some (MetadataExtractor_init default_config))) = Inr three_recipes
   \<and> trace (generate_structured_recipes sample_world ''recipe-gen-01234567'' []
      (Some (MetadataExtractor_init default_config))) =
      [Invoke [] ''Return a JSON object.'',
       Client (prompt_call sample_world ''recipe-gen-01234567'' []),
       Client (log_llm_response ''recipe-gen-01234567'' ''{}'' 1 1
         (Some 120) (Some 340) (Some 460))]"
  by (simp add: generate_structured_recipes_def Let_def sample_world_def prompt_call_def
      usage_get_def observed_usage_def on_llm_end_def on_llm_start_def with_usage_def
      MetadataExtractor_init_def)

theorem empty_item_list_is_invoked_witness:
  "chain_invoke sample_world [] (get_format_instructions sample_world) = Inr three_recipes
   \<and> (\<exists>rest. trace (generate_structured_recipes sample_world ''recipe-gen-01234567'' [] None) =
         Invoke [] (get_format_instructions sample_world) #
         Client (prompt_call sample_world ''recipe-gen-01234567'' []) # rest)"
proof -
  have h: "chain_invoke sample_world [] (get_format_instructions sample_world) = Inr three_recipes"
    by (simp add: sample_world_def)
  note t = empty_item_list_is_invoked
    [of sample_world "''recipe-gen-01234567''" None three_recipes "[]"]
  from h t show ?thesis by blast
qed

text \<open>
  C5, as amended. When the chain raises (a model-call or a validation failure), \<^verbatim>\<open>main\<close>
  attempts exactly one session-end call, the last action of the run, carrying the error
  text and an elapsed time of 0; it writes no file, prints the error, and returns
  normally: the error is absorbed, not propagated to the caller.
\<close>

theorem errored_run_logs_one_session_end:
  assumes "chain_invoke w (join '', '' default_items) (get_format_instructions w) = Inl e"
  shows "filter (\<lambda>c. kind_of c = SessionEnd) (calls_of (actions (main w))) = [error_end_call w e]
    \<and> last (actions (main w)) = Client (error_end_call w e)
    \<and> writes_of (actions (main w)) = []
    \<and> raised (main w) = None
    \<and> ''Error: '' @ str e \<in> set (printed (main w))"
proof -
  note run = main_raises [OF assms]
  have "calls_of (actions (main w)) = [session_start_call w, error_end_call w e]"
    by (simp add: run)
  then have "filter (\<lambda>c. kind_of c = SessionEnd) (calls_of (actions (main w))) =
      [error_end_call w e]"
    by (simp add: session_start_call_def error_end_call_def)
  moreover have "last (actions (main w)) = Client (error_end_call w e)"
    by (simp add: run)
  moreover have "writes_of (actions (main w)) = []"
    by (simp add: run)
  moreover have "''Error: '' @ str e \<in> set (printed (main w))"
    by (simp add: run)
  ultimately show ?thesis
    by (simp add: raised_main)
qed

text \<open>
  The claim as stated fails: in a run whose chain raises \<open>unreachable\<close>, the generator
  raises it and \<^verbatim>\<open>main\<close> ends without an exception.
\<close>

theorem errored_run_counterexample:
  "result (generate_structured_recipes failing_world (run_id_of failing_world) default_items
      (Some (MetadataExtractor_init default_config))) = Inl unreachable
   \<and> raised (main failing_world) = None"
  by (simp add: result_generate raised_main failing_world_def sample_world_def)

theorem errored_run_logs_one_session_end_witness:
  "chain_invoke failing_world (join '', '' default_items)
     (get_format_instructions failing_world) = Inl unreachable
   \<and> filter (\<lambda>c. kind_of c = SessionEnd) (calls_of (actions (main failing_world))) =
       [log_session_end ''recipe-gen-01234567'' ''Error: connection refused'' 1 0 0 None]
   \<and> raised (main failing_world) = None"
proof -
  have h: "chain_invoke failing_world (join '', '' default_items)
      (get_format_instructions failing_world) = Inl unreachable"
    by (simp add: failing_world_def sample_world_def)
  have e: "error_end_call failing_world unreachable =
      log_session_end ''recipe-gen-01234567'' ''Error: connection refused'' 1 0 0 None"
    by (simp add: error_end_call_def run_id_of_def failing_world_def sample_world_def
        unreachable_def)
  note t = errored_run_logs_one_session_end [OF h]
  from h t e show ?thesis by metis
qed

text \<open>
  C6. After every \<^verbatim>\<open>on_llm_end\<close> that completes, the stored usage has
  \<^verbatim>\<open>total_tokens = input_tokens + output_tokens\<close>, the end time is the clock reading of the
  call, and the duration is that reading minus the stored start time; the start time is
  what \<^verbatim>\<open>on_llm_start\<close> recorded.
\<close>

theorem on_llm_end_metrics:
  assumes "on_llm_end self response now = Inr self'"
  shows "(\<exists>i out start.
       metadata self ''start_time'' = Some (PyFloat start)
     \<and> metadata self' ''usage'' =
         Some (PyDict [(''input_tokens'', i), (''output_tokens'', out),
                       (''total_tokens'', i + out)])
     \<and> metadata self' ''start_time'' = Some (PyFloat start)
     \<and> metadata self' ''end_time'' = Some (PyFloat now)
     \<and> metadata self' ''duration'' = Some (PyFloat (now - start)))
   \<and> metadata (on_llm_start ex serialized prompts clock) ''start_time'' = Some (PyFloat clock)"
  using assms
  by (auto simp: on_llm_end_def on_llm_start_def Let_def
      split: sum.splits option.splits mvalue.splits prod.splits)

theorem on_llm_end_metrics_witness:
  "\<exists>ex. on_llm_end
          (on_llm_start (MetadataExtractor_init default_config) [] [''prompt''] (100::int))
          \<lparr> generations = [[with_usage 120 340]] \<rparr> 107 = Inr ex
     \<and> metadata ex ''usage'' =
         Some (PyDict [(''input_tokens'', 120), (''output_tokens'', 340),
                       (''total_tokens'', 460)])
     \<and> metadata ex ''start_time'' = Some (PyFloat 100)
     \<and> metadata ex ''end_time'' = Some (PyFloat 107)
     \<and> metadata ex ''duration'' = Some (PyFloat 7)"
proof -
  let ?started =
    "on_llm_start (MetadataExtractor_init default_config) [] [''prompt''] (100::int)"
  obtain ex where ex:
    "on_llm_end ?started \<lparr> generations = [[with_usage 120 340]] \<rparr> 107 = Inr ex"
    by (simp add: on_llm_end_def on_llm_start_def with_usage_def)
  note t = on_llm_end_metrics [OF ex, where clock = "100::int" and serialized = "[]"
      and prompts = "[''prompt'']" and ex = "MetadataExtractor_init default_config"]
  from t [THEN conjunct1] obtain i out start where h:
    "metadata ?started ''start_time'' = Some (PyFloat start)"
    "metadata ex ''usage'' =
       Some (PyDict [(''input_tokens'', i), (''output_tokens'', out),
                     (''total_tokens'', i + out)])"
    "metadata ex ''start_time'' = Some (PyFloat start)"
    "metadata ex ''end_time'' = Some (PyFloat 107)"
    "metadata ex ''duration'' = Some (PyFloat (107 - start))"
    by blast
  from h(1) t [THEN conjunct2] have s: "start = 100" by simp
  from ex have u: "metadata ex ''usage'' =
      Some (PyDict [(''input_tokens'', 120), (''output_tokens'', 340),
                    (''total_tokens'', 460)])"
    by (auto simp: on_llm_end_def on_llm_start_def with_usage_def)
  show ?thesis using ex h s u by simp
qed

text \<open>
  C7, as amended. For every list of input items the composed prompt contains every item
  verbatim. The schema-instruction text is interpolated at one place, so it occurs at
  least once; it occurs exactly once whenever it contains a character that occurs neither
  in the items nor in the fixed text of the prompt.
\<close>

theorem full_prompt_contains_items:
  "(\<forall>item \<in> set items. sublist item (full_prompt (join '', '' items) fi))
   \<and> 1 \<le> occurrences fi (full_prompt (join '', '' items) fi)
   \<and> ((\<exists>c \<in> set fi. c \<notin> set (prompt_head @ join '', '' items @ prompt_sep @ prompt_tail)) \<longrightarrow>
        occurrences fi (full_prompt (join '', '' items) fi) = 1)"
proof (intro conjI ballI impI)
  fix item assume "item \<in> set items"
  then have "sublist item (join '', '' items)" by (rule sublist_join)
  then obtain a b where "join '', '' items = a @ item @ b" by (auto simp: sublist_def)
  then have "full_prompt (join '', '' items) fi =
      (prompt_head @ a) @ item @ (b @ prompt_sep @ fi @ prompt_tail)"
    by (simp add: full_prompt_def)
  then show "sublist item (full_prompt (join '', '' items) fi)"
    unfolding sublist_def by blast
next
  have "full_prompt (join '', '' items) fi =
      (prompt_head @ join '', '' items @ prompt_sep) @ fi @ prompt_tail"
    by (simp add: full_prompt_def)
  then show "1 \<le> occurrences fi (full_prompt (join '', '' items) fi)"
    using occurrences_ge1 by metis
next
  assume "\<exists>c \<in> set fi. c \<notin> set (prompt_head @ join '', '' items @ prompt_sep @ prompt_tail)"
  then obtain c where c: "c \<in> set fi"
    and "c \<notin> set (prompt_head @ join '', '' items @ prompt_sep)"
    and "c \<notin> set prompt_tail" by auto
  from occurrences_slot [OF this]
  show "occurrences fi (full_prompt (join '', '' items) fi) = 1"
    by (simp add: full_prompt_def)
qed

text \<open>
  The claim as stated fails: when an item is itself the schema-instruction text, the
  prompt contains that text twice.
\<close>

theorem full_prompt_schema_twice_counterexample:
  "occurrences ''Return a JSON object.''
     (full_prompt (join '', '' [''Return a JSON object.'']) ''Return a JSON object.'') = 2"
  by (simp add: full_prompt_def prompt_head_def prompt_sep_def prompt_tail_def)

theorem full_prompt_contains_items_witness:
  "sublist ''chicken'' (full_prompt (join '', '' [''chicken'', ''rice'']) ''Return a JSON object.'')
   \<and> sublist ''rice'' (full_prompt (join '', '' [''chicken'', ''rice'']) ''Return a JSON object.'')
   \<and> CHR ''J'' \<in> set ''Return a JSON object.''
   \<and> CHR ''J'' \<notin> set (prompt_head @ join '', '' [''chicken'', ''rice''] @ prompt_sep @ prompt_tail)
   \<and> occurrences ''Return a JSON object.''
       (full_prompt (join '', '' [''chicken'', ''rice'']) ''Return a JSON object.'') = 1"
proof -
  have j: "CHR ''J'' \<in> set ''Return a JSON object.''" by simp
  have n: "CHR ''J'' \<notin> set (prompt_head @ join '', '' [''chicken'', ''rice''] @ prompt_sep @ prompt_tail)"
    by (simp add: prompt_head_def prompt_sep_def prompt_tail_def)
  note t = full_prompt_contains_items [of "[''chicken'', ''rice'']" "''Return a JSON object.''"]
  from t have "sublist ''chicken''
      (full_prompt (join '', '' [''chicken'', ''rice'']) ''Return a JSON object.'')"
    and "sublist ''rice''
      (full_prompt (join '', '' [''chicken'', ''rice'']) ''Return a JSON object.'')"
    by simp_all
  moreover from t j n have "occurrences ''Return a JSON object.''
       (full_prompt (join '', '' [''chicken'', ''rice'']) ''Return a JSON object.'') = 1"
    by blast
  ultimately show ?thesis using j n by blast
qed

text \<open>
  C8. In every run of \<^verbatim>\<open>main\<close> the session-start call is the first action and comes before
  the one invocation of the chain, a session-end call is the last action, the kinds of the
  telemetry calls attempted form a subsequence of session-start, prompt-logged,
  response-logged, session-end, and all calls carry the run's session id. When the chain
  succeeds, the prompt call does not raise and the usage entry is readable, all four
  calls are attempted, in that order.
\<close>

theorem telemetry_calls_in_order:
  "(\<exists>rest. actions (main w) =
       Client (session_start_call w) #
       Invoke (join '', '' default_items) (get_format_instructions w) # rest
       \<and> list_all (\<lambda>a. \<not> is_invoke a) rest)
   \<and> (\<exists>final. last (actions (main w)) = Client final \<and> kind_of final = SessionEnd)
   \<and> subseq (map kind_of (calls_of (actions (main w))))
        [SessionStart, PromptLogged, ResponseLogged, SessionEnd]
   \<and> list_all (\<lambda>c. session_of c = run_id_of w) (calls_of (actions (main w)))
   \<and> (chain_invoke w (join '', '' default_items) (get_format_instructions w) = Inr res
       \<and> client w (prompt_call w (run_id_of w) default_items) = None
       \<and> usage_readable (callbacks w (MetadataExtractor_init default_config)) \<longrightarrow>
      map kind_of (calls_of (actions (main w))) =
        [SessionStart, PromptLogged, ResponseLogged, SessionEnd])"
proof -
  obtain rest final where a: "actions (main w) =
       Client (session_start_call w) #
       Invoke (join '', '' default_items) (get_format_instructions w) # rest @ [Client final]"
    and f: "kind_of final = SessionEnd" "session_of final = run_id_of w"
    and r1: "list_all (\<lambda>a. \<not> is_invoke a) rest"
    and r3: "list_all (\<lambda>c. session_of c = run_id_of w) (calls_of rest)"
    and r4: "subseq (map kind_of (calls_of rest)) [PromptLogged, ResponseLogged]"
    using main_shape [of w] by blast
  have 1: "\<exists>rest. actions (main w) =
       Client (session_start_call w) #
       Invoke (join '', '' default_items) (get_format_instructions w) # rest
       \<and> list_all (\<lambda>a. \<not> is_invoke a) rest"
    using a r1 by simp
  have 2: "\<exists>final. last (actions (main w)) = Client final \<and> kind_of final = SessionEnd"
    using a f by simp
  have k: "map kind_of (calls_of (actions (main w))) =
      SessionStart # map kind_of (calls_of rest) @ [SessionEnd]"
    using a f by (simp add: calls_of_append session_start_call_def)
  have "subseq (map kind_of (calls_of rest) @ [SessionEnd])
      ([PromptLogged, ResponseLogged] @ [SessionEnd])"
    using r4 by (rule list_emb_append_mono) simp
  then have 3: "subseq (map kind_of (calls_of (actions (main w))))
        [SessionStart, PromptLogged, ResponseLogged, SessionEnd]"
    using k by simp
  have 4: "list_all (\<lambda>c. session_of c = run_id_of w) (calls_of (actions (main w)))"
    using a f r3 by (simp add: calls_of_append session_start_call_def)
  have 5: "map kind_of (calls_of (actions (main w))) =
        [SessionStart, PromptLogged, ResponseLogged, SessionEnd]"
    if h: "chain_invoke w (join '', '' default_items) (get_format_instructions w) = Inr res"
      "client w (prompt_call w (run_id_of w) default_items) = None"
      "usage_readable (callbacks w (MetadataExtractor_init default_config))"
  proof -
    from generate_logs_both [OF h] obtain i out tot where
      t: "trace (generate_structured_recipes w (run_id_of w) default_items
            (Some (MetadataExtractor_init default_config))) =
       [Invoke (join '', '' default_items) (get_format_instructions w),
        Client (prompt_call w (run_id_of w) default_items),
        Client (response_call w (run_id_of w) res i out tot)]" by blast
    have r: "result (generate_structured_recipes w (run_id_of w) default_items
            (Some (MetadataExtractor_init default_config))) = Inr res"
      using h(1) by (simp add: result_generate)
    show ?thesis
      by (simp add: main_def Let_def except_block_def default_items_def [symmetric] t r
          prompt_call_def response_call_def split: option.splits)
  qed
  from 1 2 3 4 5 show ?thesis by blast
qed

theorem telemetry_calls_in_order_witness:
  "chain_invoke sample_world (join '', '' default_items)
     (get_format_instructions sample_world) = Inr three_recipes
   \<and> client sample_world (prompt_call sample_world (run_id_of sample_world) default_items) = None
   \<and> usage_readable (callbacks sample_world (MetadataExtractor_init default_config))
   \<and> map kind_of (calls_of (actions (main sample_world))) =
        [SessionStart, PromptLogged, ResponseLogged, SessionEnd]"
proof -
  have h: "chain_invoke sample_world (join '', '' default_items)
      (get_format_instructions sample_world) = Inr three_recipes"
    by (simp add: sample_world_def)
  have c: "client sample_world
      (prompt_call sample_world (run_id_of sample_world) default_items) = None"
    by (simp add: sample_world_def)
  have u: "usage_readable (callbacks sample_world (MetadataExtractor_init default_config))"
    by (simp add: usage_readable_def sample_world_def observed_usage_def on_llm_end_def
        on_llm_start_def with_usage_def MetadataExtractor_init_def)
  note t = telemetry_calls_in_order [of sample_world three_recipes]
  from h c u t show ?thesis by blast
qed

text \<open>
  C9, as amended. For every run in which the chain succeeds and the output file opens,
  the validated result is written once, with indentation 2, to the file
  \<^verbatim>\<open>generated_recipes.json\<close>; the name is fixed and does not depend on the run, and the run
  writes nothing else.
\<close>

theorem output_file_has_fixed_name:
  assumes "chain_invoke w (join '', '' default_items) (get_format_instructions w) = Inr res"
    and "open_file w ''generated_recipes.json'' = None"
  shows "writes_of (actions (main w)) = [(''generated_recipes.json'', res, 2)]"
  using assms by (simp add: writes_of_main default_items_def)

text \<open>
  The claim as stated fails: two runs with different run ids write the same file name,
  which contains neither id.
\<close>

theorem output_file_name_counterexample:
  "run_id_of sample_world = ''recipe-gen-01234567''
   \<and> run_id_of other_world = ''recipe-gen-fedcba98''
   \<and> map fst (writes_of (actions (main sample_world))) = [''generated_recipes.json'']
   \<and> map fst (writes_of (actions (main other_world))) = [''generated_recipes.json'']"
  by (simp add: writes_of_main run_id_of_def other_world_def sample_world_def)

theorem output_file_has_fixed_name_witness:
  "chain_invoke sample_world (join '', '' default_items)
     (get_format_instructions sample_world) = Inr three_recipes
   \<and> open_file sample_world ''generated_recipes.json'' = None
   \<and> writes_of (actions (main sample_world)) = [(''generated_recipes.json'', three_recipes, 2)]"
proof -
  have h: "chain_invoke sample_world (join '', '' default_items)
      (get_format_instructions sample_world) = Inr three_recipes"
    by (simp add: sample_world_def)
  have o: "open_file sample_world ''generated_recipes.json'' = None"
    by (simp add: sample_world_def)
  note t = output_file_has_fixed_name [OF h o]
  from h o t show ?thesis by blast
qed

text \<open>
  C10. When the chain succeeds, \<^verbatim>\<open>generate_structured_recipes\<close> returns its result also when
  \<^verbatim>\<open>metadata_extractor\<close> is \<^verbatim>\<open>None\<close> or its metadata has no \<^verbatim>\<open>usage\<close> entry. With \<^verbatim>\<open>None\<close> the
  attribute error raised while the arguments of the response call are evaluated is caught
  by the same \<^verbatim>\<open>except\<close> as a transport failure: the response call is never attempted and
  a warning is printed. Without a \<^verbatim>\<open>usage\<close> entry nothing is raised and the response call is
  attempted with three \<^verbatim>\<open>None\<close> token counts.
\<close>

theorem logging_block_catches_everything:
  assumes "chain_invoke w (join '', '' items) (get_format_instructions w) = Inr res"
  shows "result (generate_structured_recipes w run_id items None) = Inr res
    \<and> trace (generate_structured_recipes w run_id items None) =
        [Invoke (join '', '' items) (get_format_instructions w),
         Client (prompt_call w run_id items)]
    \<and> (client w (prompt_call w run_id items) = None \<longrightarrow>
        console (generate_structured_recipes w run_id items None) =
          [llm_warning (AttributeError ''NoneType object has no attribute metadata'')])
    \<and> (metadata (callbacks w ex) ''usage'' = None \<longrightarrow>
        result (generate_structured_recipes w run_id items (Some ex)) = Inr res)
    \<and> (metadata (callbacks w ex) ''usage'' = None
        \<and> client w (prompt_call w run_id items) = None \<longrightarrow>
        trace (generate_structured_recipes w run_id items (Some ex)) =
          [Invoke (join '', '' items) (get_format_instructions w),
           Client (prompt_call w run_id items),
           Client (response_call w run_id res None None None)])"
  using assms
  by (simp add: generate_None generate_no_usage result_generate)

theorem logging_block_catches_everything_witness:
  "chain_invoke sample_world (join '', '' [''chicken'', ''rice''])
     (get_format_instructions sample_world) = Inr three_recipes
   \<and> client sample_world
       (prompt_call sample_world ''recipe-gen-01234567'' [''chicken'', ''rice'']) = None
   \<and> metadata (callbacks (sample_world\<lparr>callbacks := (\<lambda>ex. ex)\<rparr>)
       (MetadataExtractor_init default_config)) ''usage'' = None
   \<and> result (generate_structured_recipes sample_world ''recipe-gen-01234567''
        [''chicken'', ''rice''] None) = Inr three_recipes
   \<and> console (generate_structured_recipes sample_world ''recipe-gen-01234567''
        [''chicken'', ''rice''] None) =
          [llm_warning (AttributeError ''NoneType object has no attribute metadata'')]
   \<and> result (generate_structured_recipes (sample_world\<lparr>callbacks := (\<lambda>ex. ex)\<rparr>)
        ''recipe-gen-01234567'' [''chicken'', ''rice'']
        (Some (MetadataExtractor_init default_config))) = Inr three_recipes
   \<and> trace (generate_structured_recipes (sample_world\<lparr>callbacks := (\<lambda>ex. ex)\<rparr>)
        ''recipe-gen-01234567'' [''chicken'', ''rice'']
        (Some (MetadataExtractor_init default_config))) =
       [Invoke ''chicken, rice'' ''Return a JSON object.'',
        Client (prompt_call sample_world ''recipe-gen-01234567'' [''chicken'', ''rice'']),
        Client (log_llm_response ''recipe-gen-01234567'' ''{}'' 1 1 None None None)]"
proof -
  have h: "chain_invoke sample_world (join '', '' [''chicken'', ''rice''])
      (get_format_instructions sample_world) = Inr three_recipes"
    by (simp add: sample_world_def)
  have h': "chain_invoke (sample_world\<lparr>callbacks := (\<lambda>ex. ex)\<rparr>)
      (join '', '' [''chicken'', ''rice''])
      (get_format_instructions (sample_world\<lparr>callbacks := (\<lambda>ex. ex)\<rparr>)) = Inr three_recipes"
    by (simp add: sample_world_def)
  have c: "client sample_world
      (prompt_call sample_world ''recipe-gen-01234567'' [''chicken'', ''rice'']) = None"
    by (simp add: sample_world_def)
  have u: "metadata (callbacks (sample_world\<lparr>callbacks := (\<lambda>ex. ex)\<rparr>)
      (MetadataExtractor_init default_config)) ''usage'' = None"
    by (simp add: MetadataExtractor_init_def)
  from logging_block_catches_everything
      [OF h, of "''recipe-gen-01234567''" "MetadataExtractor_init default_config"]
    logging_block_catches_everything
      [OF h', of "''recipe-gen-01234567''" "MetadataExtractor_init default_config"] h c u
  show ?thesis
    by (simp add: prompt_call_def response_call_def sample_world_def)
qed

section \<open>Further properties\<close>

text \<open>
  X1. When every candidate list of the response holds exactly one record, which has either
  no usage information or both counters, \<^verbatim>\<open>on_llm_end\<close> after \<^verbatim>\<open>on_llm_start\<close> completes and
  stores as input and output token counts the sums of the records' own counters, and
  their sum as the total.
\<close>

theorem single_candidate_totals:
  assumes "list_all single_candidate (generations response)"
  shows "\<exists>ex'. on_llm_end (on_llm_start ex serialized prompts clock) response now = Inr ex'
     \<and> metadata ex' ''usage'' =
         Some (PyDict [(''input_tokens'', spec_input_token_count response),
                       (''output_tokens'', spec_output_token_count response),
                       (''total_tokens'',
                          spec_input_token_count response + spec_output_token_count response)])"
  using outer_loop_single [OF assms, of 0 0]
  by (simp add: on_llm_end_def on_llm_start_def spec_input_token_count_def
      spec_output_token_count_def)

theorem single_candidate_totals_witness:
  "list_all single_candidate [[with_usage 120 340], [without_usage], [with_usage 1 2]]
   \<and> (\<exists>ex'. on_llm_end
          (on_llm_start (MetadataExtractor_init default_config) [] [''prompt''] (100::int))
          \<lparr> generations = [[with_usage 120 340], [without_usage], [with_usage 1 2]] \<rparr> 107 = Inr ex'
        \<and> metadata ex' ''usage'' =
            Some (PyDict [(''input_tokens'', 121), (''output_tokens'', 342),
                          (''total_tokens'', 463)]))"
proof -
  let ?r = "\<lparr> generations = [[with_usage 120 340], [without_usage], [with_usage 1 2]] \<rparr>"
  have h: "list_all single_candidate (generations ?r)"
    by (simp add: counted_def with_usage_def without_usage_def)
  have i: "spec_input_token_count ?r = 121" and o: "spec_output_token_count ?r = 342"
    by (simp_all add: spec_input_token_count_def spec_output_token_count_def own_counter_def
        with_usage_def without_usage_def)
  note t = single_candidate_totals [OF h, of "MetadataExtractor_init default_config" "[]"
      "[''prompt'']" "100::int" 107]
  from t h show ?thesis unfolding i o by simp
qed

text \<open>
  X2. A reply that decodes to a value conforming to the documented schema (three records,
  each with its six fields of the declared types) validates to a collection of three
  records; a reply that decodes to a value missing a required field fails with
  \<open>SchemaViolation\<close>.
\<close>

theorem parse_conforming_reply:
  "(loads reply = Some j \<and> conforms j \<longrightarrow>
      (\<exists>rc. parse loads reply = Inr rc \<and> length (recipes rc) = 3))
   \<and> (loads reply = Some j \<and> missing_required_field j \<longrightarrow>
        parse loads reply = Inl SchemaViolation)"
proof (intro conjI impI)
  assume h: "loads reply = Some j \<and> conforms j"
  then obtain rc where "validate_RecipeCollection j = Some rc"
    and "int (length (recipes rc)) = max_recipes (recipes_config default_config)"
    using conforms_validate by blast
  with h show "\<exists>rc. parse loads reply = Inr rc \<and> length (recipes rc) = 3"
    by (simp add: parse_def default_config_def)
next
  assume "loads reply = Some j \<and> missing_required_field j"
  then show "parse loads reply = Inl SchemaViolation"
    by (simp add: parse_def missing_required_field_validate)
qed

theorem parse_conforming_reply_witness:
  "conforms three_recipes_reply
   \<and> (\<exists>rc. parse (\<lambda>reply. Some three_recipes_reply) ''reply'' = Inr rc \<and> length (recipes rc) = 3)
   \<and> missing_required_field incomplete_reply
   \<and> parse (\<lambda>reply. Some incomplete_reply) ''reply'' = Inl SchemaViolation"
proof -
  have c: "conforms three_recipes_reply"
    by (simp add: three_recipes_reply_def recipe_json_def has_field_def default_config_def)
  have m: "missing_required_field incomplete_reply"
    by (simp add: incomplete_reply_def recipe_json_def incomplete_recipe_json_def
        required_fields_def)
  note t1 = parse_conforming_reply
    [of "\<lambda>reply. Some three_recipes_reply" "''reply''" three_recipes_reply]
  note t2 = parse_conforming_reply
    [of "\<lambda>reply. Some incomplete_reply" "''reply''" incomplete_reply]
  from c t1 have "\<exists>rc. parse (\<lambda>reply. Some three_recipes_reply) ''reply'' = Inr rc
      \<and> length (recipes rc) = 3"
    by simp
  moreover from m t2 have "parse (\<lambda>reply. Some incomplete_reply) ''reply'' = Inl SchemaViolation"
    by simp
  ultimately show ?thesis using c m by blast
qed

end
